theory Spec2Isabelle
  imports Main "HOL-Library.Word" "HOL-Library.AList" "HOL-Library.Char_ord"
    "HOL-Library.List_Lexorder"
begin

section \<open>JSON documents\<close>

text \<open>
  The library builds and reads its payloads with \<^verbatim>\<open>nlohmann::json\<close>. The model keeps
  the value kinds the code under study constructs or inspects. An object is an association
  list with one entry per key; an integer stands for both the signed and the unsigned
  number kinds, which compare and serialise alike. The library keeps the entries of an
  object in a \<^verbatim>\<open>std::map\<close>, ordered by key, whatever the order they were inserted
  in; the order of the association list carries no meaning, and where the code walks
  through an object (\<open>json_items\<close>) the entries are taken in the order of their keys.
\<close>

datatype json =
    JNull
  | JBool bool
  | JNum int
  | JStr string
  | JArr "json list"
  | JObj "(string \<times> json) list"

text \<open>
  The exceptions the code can raise: \<^verbatim>\<open>nlohmann::detail::type_error\<close> with its
  identifier (305 for \<^verbatim>\<open>operator[]\<close> with a string key on a value that is neither null
  nor an object, 308 for \<^verbatim>\<open>push_back\<close> on a value that is neither null nor an array),
  \<^verbatim>\<open>std::bad_variant_access\<close> from \<^verbatim>\<open>std::get\<close>, and the parser's
  \<^verbatim>\<open>parse_error\<close>.
\<close>

datatype error = TypeError nat | BadVariantAccess | ParseError

text \<open>
  \<^verbatim>\<open>j[key]\<close> on a mutable document, read: a null document turns into an object, a
  missing key is created holding null, and the entry is returned. Any other kind of value
  throws. The entry created in \<^verbatim>\<open>j\<close> itself is not tracked: no caller below looks at it.
\<close>

fun json_at :: "json \<Rightarrow> string \<Rightarrow> error + json" where
  "json_at JNull k = Inr JNull"
| "json_at (JObj kvs) k = Inr (case map_of kvs k of Some v \<Rightarrow> v | None \<Rightarrow> JNull)"
| "json_at (JBool b) k = Inl (TypeError 305)"
| "json_at (JNum n) k = Inl (TypeError 305)"
| "json_at (JStr s) k = Inl (TypeError 305)"
| "json_at (JArr xs) k = Inl (TypeError 305)"

text \<open>\<^verbatim>\<open>j[key] = v\<close>: the same access, followed by the assignment.\<close>

fun json_set :: "json \<Rightarrow> string \<Rightarrow> json \<Rightarrow> error + json" where
  "json_set JNull k v = Inr (JObj [(k, v)])"
| "json_set (JObj kvs) k v = Inr (JObj (AList.update k v kvs))"
| "json_set (JBool b) k v = Inl (TypeError 305)"
| "json_set (JNum n) k v = Inl (TypeError 305)"
| "json_set (JStr s) k v = Inl (TypeError 305)"
| "json_set (JArr xs) k v = Inl (TypeError 305)"

text \<open>
  \<^verbatim>\<open>j.find(key)\<close>: the entry of an object, and \<^verbatim>\<open>end()\<close> (here \<open>None\<close>) for a missing
  key and for every value that is not an object.
\<close>

fun json_find :: "json \<Rightarrow> string \<Rightarrow> json option" where
  "json_find (JObj kvs) k = map_of kvs k"
| "json_find JNull k = None"
| "json_find (JBool b) k = None"
| "json_find (JNum n) k = None"
| "json_find (JStr s) k = None"
| "json_find (JArr xs) k = None"

text \<open>\<^verbatim>\<open>j.erase(it)\<close> for an iterator that \<^verbatim>\<open>find\<close> returned on an object.\<close>

fun json_erase :: "json \<Rightarrow> string \<Rightarrow> json" where
  "json_erase (JObj kvs) k = JObj (AList.delete k kvs)"
| "json_erase JNull k = JNull"
| "json_erase (JBool b) k = JBool b"
| "json_erase (JNum n) k = JNum n"
| "json_erase (JStr s) k = JStr s"
| "json_erase (JArr xs) k = JArr xs"

text \<open>
  \<^verbatim>\<open>j.push_back(v)\<close>: null turns into an array first, an array grows at its end, and
  every other kind of value throws.
\<close>

fun json_push_back :: "json \<Rightarrow> json \<Rightarrow> error + json" where
  "json_push_back JNull v = Inr (JArr [v])"
| "json_push_back (JArr xs) v = Inr (JArr (xs @ [v]))"
| "json_push_back (JBool b) v = Inl (TypeError 308)"
| "json_push_back (JNum n) v = Inl (TypeError 308)"
| "json_push_back (JStr s) v = Inl (TypeError 308)"
| "json_push_back (JObj kvs) v = Inl (TypeError 308)"

text \<open>
  The elements a range-based \<^verbatim>\<open>for\<close> visits: those of an array, the values of an
  object in the order of their keys (strings compare byte by byte, a proper prefix first),
  nothing for null, and the value itself for a scalar.
\<close>

fun json_items :: "json \<Rightarrow> json list" where
  "json_items JNull = []"
| "json_items (JArr xs) = xs"
| "json_items (JObj kvs) = map snd (sort_key fst kvs)"
| "json_items (JBool b) = [JBool b]"
| "json_items (JNum n) = [JNum n]"
| "json_items (JStr s) = [JStr s]"

section \<open>Snowflakes and the JSON field readers\<close>

type_synonym snowflake = "64 word"

text \<open>
  The field readers are declared in \<^verbatim>\<open>dpp/discordevents.h\<close>, which is not among the
  sources at hand, so every function that calls them takes them as a parameter: whatever
  is proved holds for any implementation of them.
\<close>

record helpers =
  SnowflakeNotNull :: "json \<Rightarrow> string \<Rightarrow> snowflake"
  StringNotNull :: "json \<Rightarrow> string \<Rightarrow> string"
  Int8NotNull :: "json \<Rightarrow> string \<Rightarrow> 8 word"
  Int32NotNull :: "json \<Rightarrow> string \<Rightarrow> 32 word"
  BoolNotNull :: "json \<Rightarrow> string \<Rightarrow> bool"

section \<open>The cache and the dispatcher\<close>

text \<open>
  The cache keeps each kind of entity in a container keyed by snowflake. A pointer to a
  cache entry is the key of that entry, and \<open>None\<close> is the null pointer; the entry is read
  and updated through the store, so a handler that receives the pointer sees what the
  store holds.
\<close>

type_synonym ptr = "snowflake option"

record ('g, 'u, 'c, 'e) cache =
  guilds :: "snowflake \<rightharpoonup> 'g"
  users :: "snowflake \<rightharpoonup> 'u"
  channels :: "snowflake \<rightharpoonup> 'c"
  emojis :: "snowflake \<rightharpoonup> 'e"

text \<open>
  Modelled from the spec: the lookups \<^verbatim>\<open>find_guild\<close>, \<^verbatim>\<open>find_user\<close>, \<^verbatim>\<open>find_channel\<close>
  and \<^verbatim>\<open>find_emoji\<close> are missing (\<^verbatim>\<open>dpp/cache.h\<close> is not among the sources). The spec:
  "find_guild, find_user, find_channel, find_role, find_emoji by snowflake; each returns a
  borrow or null."
\<close>

definition find_in :: "(snowflake \<rightharpoonup> 'a) \<Rightarrow> snowflake \<Rightarrow> ptr" where
  "find_in store i = (case store i of None \<Rightarrow> None | Some x \<Rightarrow> Some i)"

definition find_guild :: "('g, 'u, 'c, 'e) cache \<Rightarrow> snowflake \<Rightarrow> ptr" where
  "find_guild c i = find_in (guilds c) i"

definition find_user :: "('g, 'u, 'c, 'e) cache \<Rightarrow> snowflake \<Rightarrow> ptr" where
  "find_user c i = find_in (users c) i"

definition find_channel :: "('g, 'u, 'c, 'e) cache \<Rightarrow> snowflake \<Rightarrow> ptr" where
  "find_channel c i = find_in (channels c) i"

definition find_emoji :: "('g, 'u, 'c, 'e) cache \<Rightarrow> snowflake \<Rightarrow> ptr" where
  "find_emoji c i = find_in (emojis c) i"

text \<open>
  A slot of the dispatcher is a \<^verbatim>\<open>std::function\<close>: empty, or holding the user's handler.
  The model records whether the slot is set, and a call of the slot is recorded: each
  \<^verbatim>\<open>handle\<close> function returns the event records it called its slot with, in order.
\<close>

record dispatcher =
  message_reaction_add :: bool
  user_update :: bool

record cluster =
  dispatch :: dispatcher

text \<open>
  The fields of \<^verbatim>\<open>DiscordClient\<close> that the functions below read or write. Times
  (\<^verbatim>\<open>time_t\<close>) are integers. \<^verbatim>\<open>message_queue\<close> is the one outbound deque, its head
  first; each payload carries the lane it was queued in (\<open>True\<close> for a priority send),
  after the spec's "two logical lanes within a single deque".
\<close>

record DiscordClient =
  creator :: cluster
  shard_id :: "32 word"
  message_queue :: "(string \<times> bool) list"
  heartbeat_interval :: "32 word"
  last_heartbeat :: int
  last_seq :: "64 word"
  last_heartbeat_ack :: int

record message_reaction_add_t =
  raw_event :: string
  from_shard :: "32 word"
  reacting_guild :: ptr
  reacting_user :: ptr
  reacting_channel :: ptr
  reacting_emoji :: ptr
  message_id :: snowflake

record user_update_t =
  uu_raw_event :: string
  uu_from_shard :: "32 word"
  updated :: ptr

section \<open>MESSAGE_REACTION_ADD\<close>

text \<open>
  \<^verbatim>\<open>message_reaction_add::handle\<close>. The result is the exception that escaped, or the list
  of calls made to the registered handler.
\<close>

definition message_reaction_add_handle ::
  "helpers \<Rightarrow> ('g, 'u, 'c, 'e) cache \<Rightarrow> DiscordClient \<Rightarrow> json \<Rightarrow> string
    \<Rightarrow> error + message_reaction_add_t list" where
  "message_reaction_add_handle h c client j raw =
    (if message_reaction_add (dispatch (creator client)) then
      (case json_at j ''d'' of
        Inl e \<Rightarrow> Inl e
      | Inr d \<Rightarrow>
          (let g = find_guild c (SnowflakeNotNull h d ''guild_id'');
               u = find_user c (SnowflakeNotNull h d ''user_id'');
               ch = find_channel c (SnowflakeNotNull h d ''channel_id'');
               m = SnowflakeNotNull h d ''message_id''
           in (case json_at d ''emoji'' of
                Inl e \<Rightarrow> Inl e
              | Inr em \<Rightarrow>
                  (let mra = \<lparr> raw_event = raw, from_shard = shard_id client,
                              reacting_guild = g, reacting_user = u, reacting_channel = ch,
                              reacting_emoji = find_emoji c (SnowflakeNotNull h em ''id''),
                              message_id = m \<rparr>
                   in if reacting_user mra \<noteq> None \<and> reacting_channel mra \<noteq> None
                         \<and> message_id mra \<noteq> 0
                      then Inr [mra] else Inr []))))
     else Inr [])"

section \<open>USER_UPDATE\<close>

text \<open>
  \<^verbatim>\<open>user_update::handle\<close>. \<^verbatim>\<open>user::fill_from_json\<close> is declared in the sources but its
  body is not among them, so it is the parameter \<open>fill\<close>. \<^verbatim>\<open>u->fill_from_json(&d)\<close>
  rewrites the entry that \<open>p\<close> points to, where it lives in the store. The result is
  the cache after the call and the calls made to the handler.
\<close>

definition user_update_handle ::
  "helpers \<Rightarrow> ('u \<Rightarrow> json \<Rightarrow> 'u) \<Rightarrow> ('g, 'u, 'c, 'e) cache \<Rightarrow> DiscordClient \<Rightarrow> json \<Rightarrow> string
    \<Rightarrow> error + (('g, 'u, 'c, 'e) cache \<times> user_update_t list)" where
  "user_update_handle h fill c client j raw =
    (case json_at j ''d'' of
      Inl e \<Rightarrow> Inl e
    | Inr d \<Rightarrow>
        (let user_id = SnowflakeNotNull h d ''id'' in
         if user_id \<noteq> 0 then
           (case find_user c user_id of
             Some p \<Rightarrow>
               (let c' = c\<lparr> users := (users c)(p := map_option (\<lambda>u. fill u d) (users c p)) \<rparr>
                in if user_update (dispatch (creator client))
                   then Inr (c', [\<lparr> uu_raw_event = raw, uu_from_shard = shard_id client,
                                    updated = Some p \<rparr>])
                   else Inr (c', []))
           | None \<Rightarrow> Inr (c, []))
         else Inr (c, [])))"

section \<open>Slash commands\<close>

text \<open>Sequencing of steps that may throw: the first exception ends the function.\<close>

definition ebind :: "error + 'a \<Rightarrow> ('a \<Rightarrow> error + 'b) \<Rightarrow> error + 'b" where
  "ebind m f = (case m of Inl e \<Rightarrow> Inl e | Inr x \<Rightarrow> f x)"

text \<open>
  \<^verbatim>\<open>enum command_option_type : uint8_t\<close>. The decoder casts a byte read from the wire to
  this type, so a value is a byte and the enumerators are names of some of them.
\<close>

type_synonym command_option_type = "8 word"

definition co_sub_command :: command_option_type where "co_sub_command = 1"
definition co_sub_command_group :: command_option_type where "co_sub_command_group = 2"
definition co_string :: command_option_type where "co_string = 3"
definition co_integer :: command_option_type where "co_integer = 4"
definition co_boolean :: command_option_type where "co_boolean = 5"
definition co_user :: command_option_type where "co_user = 6"
definition co_channel :: command_option_type where "co_channel = 7"
definition co_role :: command_option_type where "co_role = 8"

text \<open>
  \<^verbatim>\<open>std::variant<std::string, uint32_t, bool, snowflake>\<close>; the discriminators are
  \<^verbatim>\<open>std::holds_alternative\<close> at each of the four types.
\<close>

datatype command_value =
    holds_string: CVString string
  | holds_uint32: CVUInt32 "32 word"
  | holds_bool: CVBool bool
  | holds_snowflake: CVSnowflake snowflake

record command_option_choice =
  coc_name :: string
  coc_value :: command_value

datatype command_option = CommandOption
  (co_type: command_option_type)
  (co_name: string)
  (co_description: string)
  (co_required: bool)
  (co_choices: "command_option_choice list")
  (co_options: "command_option list")

record slashcommand =
  sc_id :: snowflake
  sc_application_id :: snowflake
  sc_name :: string
  sc_description :: string
  sc_options :: "command_option list"

text \<open>\<^verbatim>\<open>std::to_string\<close> of an unsigned integer: its decimal digits.\<close>

function to_string :: "nat \<Rightarrow> string" where
  "to_string n =
    (if n < 10 then [''0123456789'' ! n]
     else to_string (n div 10) @ [''0123456789'' ! (n mod 10)])"
  by pat_completeness auto
termination
  by (relation "measure (\<lambda>n. n)") auto

declare to_string.simps [simp del]

text \<open>
  Lines 65--74 of \<^verbatim>\<open>slashcommand.cpp\<close>: the value of a choice of a top-level option.
  Only the \<^verbatim>\<open>uint32_t\<close> alternative is tested for; every other choice is read with
  \<^verbatim>\<open>std::get<std::string>\<close>, which throws unless the variant holds a string.
\<close>

fun top_choice_value :: "command_value \<Rightarrow> error + json" where
  "top_choice_value (CVUInt32 w) = Inr (JNum (uint w))"
| "top_choice_value (CVString s) = Inr (JStr s)"
| "top_choice_value (CVBool b) = Inl BadVariantAccess"
| "top_choice_value (CVSnowflake s) = Inl BadVariantAccess"

text \<open>The loop over \<^verbatim>\<open>opt.choices\<close>; \<open>c\<close> is the array \<^verbatim>\<open>n["choices"]\<close> built so far.\<close>

fun build_choices :: "json \<Rightarrow> command_option_choice list \<Rightarrow> error + json" where
  "build_choices c [] = Inr c"
| "build_choices c (choice # rest) =
    ebind (json_set JNull ''name'' (JStr (coc_name choice))) (\<lambda>t.
    ebind (top_choice_value (coc_value choice)) (\<lambda>v.
    ebind (json_set t ''value'' v) (\<lambda>t.
    ebind (json_push_back c t) (\<lambda>c.
    build_choices c rest))))"

text \<open>Lines 91--99: the value of a choice inside the loop over the sub-options.\<close>

fun nested_choice_value :: "command_value \<Rightarrow> json" where
  "nested_choice_value (CVUInt32 w) = JNum (uint w)"
| "nested_choice_value (CVBool b) = JBool b"
| "nested_choice_value (CVSnowflake s) = JStr (to_string (unat s))"
| "nested_choice_value (CVString s) = JStr s"

text \<open>
  Lines 89--100: each choice overwrites the keys \<^verbatim>\<open>name\<close> and \<^verbatim>\<open>value\<close> of
  \<^verbatim>\<open>v = o["choices"]\<close>, which is null before the first choice and an object after it.
\<close>

fun fill_v :: "json \<Rightarrow> command_option_choice list \<Rightarrow> error + json" where
  "fill_v v [] = Inr v"
| "fill_v v (choice # rest) =
    ebind (json_set v ''name'' (JStr (coc_name choice))) (\<lambda>v.
    ebind (json_set v ''value'' (nested_choice_value (coc_value choice))) (\<lambda>v.
    fill_v v rest))"

text \<open>
  Lines 81--102: the object \<^verbatim>\<open>o\<close> built in each round of the loop over
  \<^verbatim>\<open>opt.options\<close>. Its fields are read from the enclosing option \<^verbatim>\<open>opt\<close>; the loop
  variable \<^verbatim>\<open>subcommand\<close> is not read. When the option has choices, \<^verbatim>\<open>o\<close> itself is
  pushed onto \<^verbatim>\<open>v\<close>.
\<close>

definition subcommand_object :: "command_option \<Rightarrow> command_option \<Rightarrow> error + json" where
  "subcommand_object opt subcommand =
    ebind (json_set JNull ''name'' (JStr (co_name opt))) (\<lambda>ob.
    ebind (json_set ob ''description'' (JStr (co_description opt))) (\<lambda>ob.
    ebind (json_set ob ''type'' (JNum (uint (co_type opt)))) (\<lambda>ob.
    ebind (json_set ob ''required'' (JBool (co_required opt))) (\<lambda>ob.
    if co_choices opt \<noteq> [] then
      ebind (json_set ob ''choices'' JNull) (\<lambda>ob.
      ebind (fill_v JNull (co_choices opt)) (\<lambda>v.
      ebind (json_set ob ''choices'' v) (\<lambda>ob.
      ebind (json_push_back v ob) (\<lambda>v.
      json_set ob ''choices'' v))))
    else Inr ob))))"

text \<open>
  Line 103, \<^verbatim>\<open>c.push_back(n)\<close> with \<^verbatim>\<open>c = n["options"]\<close>: the array inside \<^verbatim>\<open>n\<close>
  receives a copy of \<^verbatim>\<open>n\<close> itself. \<^verbatim>\<open>push_back\<close> first turns a null \<^verbatim>\<open>c\<close> into an
  empty array and then copies its argument, so the copy holds the array as it was before
  the new element.
\<close>

definition push_back_self :: "json \<Rightarrow> string \<Rightarrow> error + json" where
  "push_back_self n k =
    ebind (json_at n k) (\<lambda>c.
      case c of
        JNull \<Rightarrow> ebind (json_set n k (JArr [])) (\<lambda>n0. json_set n k (JArr [n0]))
      | JArr xs \<Rightarrow> json_set n k (JArr (xs @ [n]))
      | JBool b \<Rightarrow> Inl (TypeError 308)
      | JNum i \<Rightarrow> Inl (TypeError 308)
      | JStr s \<Rightarrow> Inl (TypeError 308)
      | JObj kvs \<Rightarrow> Inl (TypeError 308))"

text \<open>Lines 80--104: the loop over \<^verbatim>\<open>opt.options\<close>, threading \<^verbatim>\<open>n\<close>.\<close>

fun nested_loop :: "command_option \<Rightarrow> json \<Rightarrow> command_option list \<Rightarrow> error + json" where
  "nested_loop opt n [] = Inr n"
| "nested_loop opt n (subcommand # rest) =
    ebind (subcommand_object opt subcommand) (\<lambda>ob.
    ebind (push_back_self n ''options'') (\<lambda>n.
    nested_loop opt n rest))"

text \<open>Lines 56--105: the object \<^verbatim>\<open>n\<close> of one top-level option.\<close>

definition option_json :: "command_option \<Rightarrow> error + json" where
  "option_json opt =
    ebind (json_set JNull ''name'' (JStr (co_name opt))) (\<lambda>n.
    ebind (json_set n ''description'' (JStr (co_description opt))) (\<lambda>n.
    ebind (json_set n ''type'' (JNum (uint (co_type opt)))) (\<lambda>n.
    ebind (json_set n ''required'' (JBool (co_required opt))) (\<lambda>n.
    ebind (if co_choices opt \<noteq> [] then
             ebind (json_set n ''choices'' JNull) (\<lambda>n.
             ebind (build_choices JNull (co_choices opt)) (\<lambda>c.
             json_set n ''choices'' c))
           else Inr n) (\<lambda>n.
    if co_options opt \<noteq> [] then
      ebind (json_set n ''options'' JNull) (\<lambda>n.
      nested_loop opt n (co_options opt))
    else Inr n)))))"

text \<open>The loop over \<^verbatim>\<open>options\<close>; \<open>arr\<close> is the array \<^verbatim>\<open>j["options"]\<close> built so far.\<close>

fun build_options :: "json \<Rightarrow> command_option list \<Rightarrow> error + json" where
  "build_options arr [] = Inr arr"
| "build_options arr (opt # rest) =
    ebind (option_json opt) (\<lambda>n.
    ebind (json_push_back arr n) (\<lambda>arr.
    build_options arr rest))"

text \<open>
  \<^verbatim>\<open>slashcommand::build_json\<close>. The source returns \<^verbatim>\<open>j.dump()\<close>, the text of the
  document \<^verbatim>\<open>j\<close> as the JSON library serialises it; the model returns the document.
\<close>

definition slashcommand_build_json :: "bool \<Rightarrow> slashcommand \<Rightarrow> error + json" where
  "slashcommand_build_json with_id cmd =
    ebind (if with_id then json_set JNull ''id'' (JStr (to_string (unat (sc_id cmd))))
           else Inr JNull) (\<lambda>j.
    ebind (json_set j ''name'' (JStr (sc_name cmd))) (\<lambda>j.
    ebind (json_set j ''description'' (JStr (sc_description cmd))) (\<lambda>j.
    if sc_options cmd \<noteq> [] then
      ebind (json_set j ''options'' JNull) (\<lambda>j.
      ebind (build_options JNull (sc_options cmd)) (\<lambda>arr.
      json_set j ''options'' arr))
    else Inr j)))"

section \<open>Interactions\<close>

datatype command_data_option = CommandDataOption
  (cdo_name: string)
  (cdo_type: command_option_type)
  (cdo_value: command_value)
  (cdo_options: "command_data_option list")

text \<open>\<^verbatim>\<open>enum interaction_type\<close>, compared with the byte \<^verbatim>\<open>interaction::type\<close>.\<close>

definition it_ping :: "8 word" where "it_ping = 1"
definition it_application_command :: "8 word" where "it_application_command = 2"
definition it_component_button :: "8 word" where "it_component_button = 3"

record command_interaction =
  ci_id :: snowflake
  ci_name :: string
  ci_options :: "command_data_option list"

record button_interaction =
  component_type :: "8 word"
  custom_id :: string

text \<open>
  \<^verbatim>\<open>std::variant<command_interaction, button_interaction>\<close>: it always holds one of the
  two, and a default-constructed one holds a value-initialised \<^verbatim>\<open>command_interaction\<close>.
\<close>

datatype interaction_data =
    holds_command_interaction: CommandInteraction command_interaction
  | holds_button_interaction: ButtonInteraction button_interaction

definition default_interaction_data :: interaction_data where
  "default_interaction_data = CommandInteraction \<lparr> ci_id = 0, ci_name = [], ci_options = [] \<rparr>"

record ('m, 'u) interaction =
  i_id :: snowflake
  i_application_id :: snowflake
  i_type :: "8 word"
  i_data :: interaction_data
  i_guild_id :: snowflake
  i_channel_id :: snowflake
  i_member :: 'm
  i_usr :: 'u
  i_token :: string
  i_version :: "8 word"

text \<open>
  Lines 179--198 of \<^verbatim>\<open>slashcommand.cpp\<close>: one element of \<^verbatim>\<open>data.options\<close>. A type the
  \<^verbatim>\<open>switch\<close> has no case for leaves the value as constructed, an empty string.
\<close>

definition command_data_option_from_json :: "helpers \<Rightarrow> json \<Rightarrow> command_data_option" where
  "command_data_option_from_json h opt =
    (let name = StringNotNull h opt ''name'';
         ty = Int8NotNull h opt ''type''
     in CommandDataOption name ty
          (if ty = co_boolean then CVBool (BoolNotNull h opt ''value'')
           else if ty = co_channel \<or> ty = co_role \<or> ty = co_user
             then CVSnowflake (SnowflakeNotNull h opt ''value'')
           else if ty = co_integer then CVUInt32 (Int32NotNull h opt ''value'')
           else if ty = co_string then CVString (StringNotNull h opt ''value'')
           else CVString [])
          [])"

text \<open>
  Lines 171--202. The local \<^verbatim>\<open>ci\<close> is declared without an initialiser, so without a
  \<^verbatim>\<open>data\<close> key its id is whatever the stack held: the parameter \<open>uninit_id\<close>.
\<close>

definition command_interaction_from_json ::
  "helpers \<Rightarrow> snowflake \<Rightarrow> json \<Rightarrow> command_interaction" where
  "command_interaction_from_json h uninit_id j =
    (case json_find j ''data'' of
      None \<Rightarrow> \<lparr> ci_id = uninit_id, ci_name = [], ci_options = [] \<rparr>
    | Some param \<Rightarrow>
        \<lparr> ci_id = SnowflakeNotNull h param ''id'',
          ci_name = StringNotNull h param ''name'',
          ci_options =
            (case json_find param ''options'' of
              None \<Rightarrow> []
            | Some opts \<Rightarrow> map (command_data_option_from_json h) (json_items opts)) \<rparr>)"

text \<open>Lines 204--210, with \<open>uninit_ct\<close> for the uninitialised \<^verbatim>\<open>bi.component_type\<close>.\<close>

definition button_interaction_from_json ::
  "helpers \<Rightarrow> 8 word \<Rightarrow> json \<Rightarrow> button_interaction" where
  "button_interaction_from_json h uninit_ct j =
    (case json_find j ''data'' of
      None \<Rightarrow> \<lparr> component_type = uninit_ct, custom_id = [] \<rparr>
    | Some param \<Rightarrow>
        \<lparr> component_type = Int8NotNull h param ''component_type'',
          custom_id = StringNotNull h param ''custom_id'' \<rparr>)"

text \<open>
  \<^verbatim>\<open>interaction::fill_from_json\<close>. \<open>member_from\<close> stands for
  \<^verbatim>\<open>guild_member().fill_from_json(&m, nullptr, nullptr)\<close> and \<open>user_from\<close> for
  \<^verbatim>\<open>user().fill_from_json(&x)\<close>, whose bodies are not among the sources. The only access
  that can throw is \<^verbatim>\<open>m["user"]\<close> on a \<^verbatim>\<open>member\<close> that is neither an object nor null.
\<close>

definition interaction_fill_from_json ::
  "helpers \<Rightarrow> (json \<Rightarrow> 'm) \<Rightarrow> (json \<Rightarrow> 'u) \<Rightarrow> snowflake \<Rightarrow> 8 word
    \<Rightarrow> ('m, 'u) interaction \<Rightarrow> json \<Rightarrow> error + ('m, 'u) interaction" where
  "interaction_fill_from_json h member_from user_from uninit_id uninit_ct i j =
    (let i = i\<lparr> i_id := SnowflakeNotNull h j ''id'',
                i_application_id := SnowflakeNotNull h j ''application_id'',
                i_channel_id := SnowflakeNotNull h j ''channel_id'',
                i_guild_id := SnowflakeNotNull h j ''guild_id'',
                i_token := StringNotNull h j ''token'',
                i_type := Int8NotNull h j ''type'',
                i_version := Int8NotNull h j ''version'' \<rparr>
     in ebind (case json_find j ''member'' of
                None \<Rightarrow> Inr i
              | Some m \<Rightarrow>
                  ebind (json_at m ''user'') (\<lambda>mu.
                  Inr (i\<lparr> i_member := member_from m, i_usr := user_from mu \<rparr>))) (\<lambda>i.
        let i = (case json_find j ''user'' of
                  None \<Rightarrow> i
                | Some u \<Rightarrow> i\<lparr> i_usr := user_from u \<rparr>)
        in if i_type i = it_application_command then
             Inr (i\<lparr> i_data := CommandInteraction (command_interaction_from_json h uninit_id j) \<rparr>)
           else if i_type i = it_component_button then
             Inr (i\<lparr> i_data := ButtonInteraction (button_interaction_from_json h uninit_ct j) \<rparr>)
           else Inr i))"

section \<open>Interaction responses\<close>

text \<open>
  \<^verbatim>\<open>enum interaction_response_type\<close>. The decoder stores a byte from the wire cast to the
  enumeration, so a value is an integer and the enumerators name five of them.
\<close>

type_synonym interaction_response_type = int

definition ir_pong :: interaction_response_type where "ir_pong = 1"
definition ir_acknowledge :: interaction_response_type where "ir_acknowledge = 2"
definition ir_channel_message :: interaction_response_type where "ir_channel_message = 3"
definition ir_channel_message_with_source :: interaction_response_type where
  "ir_channel_message_with_source = 4"
definition ir_deferred_channel_message_with_source :: interaction_response_type where
  "ir_deferred_channel_message_with_source = 5"

record 'msg interaction_response =
  ir_type :: interaction_response_type
  msg :: 'msg

text \<open>
  \<^verbatim>\<open>interaction_response::fill_from_json\<close>; \<open>message_fill\<close> stands for
  \<^verbatim>\<open>message::fill_from_json\<close>, which is not among the sources.
\<close>

definition interaction_response_fill_from_json ::
  "helpers \<Rightarrow> ('msg \<Rightarrow> json \<Rightarrow> 'msg) \<Rightarrow> 'msg interaction_response \<Rightarrow> json
    \<Rightarrow> 'msg interaction_response" where
  "interaction_response_fill_from_json h message_fill r j =
    (let r = r\<lparr> ir_type := uint (Int8NotNull h j ''type'') \<rparr>
     in case json_find j ''data'' of
          None \<Rightarrow> r
        | Some d \<Rightarrow> r\<lparr> msg := message_fill (msg r) d \<rparr>)"

text \<open>
  \<^verbatim>\<open>interaction_response::build_json\<close>. \<open>message_json\<close> stands for
  \<^verbatim>\<open>json::parse(msg->build_json())\<close>: the JSON text of the wrapped message
  (\<^verbatim>\<open>message::build_json\<close> is not among the sources) read back as a document, or the
  parser's exception. The source returns \<^verbatim>\<open>j.dump()\<close>, the text of the document
  \<^verbatim>\<open>j\<close>; the model returns the document.
\<close>

definition interaction_response_build_json ::
  "('msg \<Rightarrow> error + json) \<Rightarrow> 'msg interaction_response \<Rightarrow> error + json" where
  "interaction_response_build_json message_json r =
    ebind (message_json (msg r)) (\<lambda>msg_json.
    ebind (json_set JNull ''type'' (JNum (ir_type r))) (\<lambda>j.
    let msg_json = (case json_find msg_json ''channel_id'' of
                     None \<Rightarrow> msg_json
                   | Some cid \<Rightarrow> json_erase msg_json ''channel_id'')
    in json_set j ''data'' msg_json))"

section \<open>The shard: outbound queue, heartbeat, voice connections\<close>

text \<open>
  Modelled from the spec: the body of \<^verbatim>\<open>DiscordClient::QueueMessage\<close> is not among the
  sources (\<^verbatim>\<open>discordclient.h\<close> declares it, with \<^verbatim>\<open>to_front\<close> for "urgent messages
  such as heartbeat, presence"). The spec (4.4.3): "Two logical lanes within a single
  deque: priority sends are placed at the head ..., normal sends at the tail", and (3)
  "priority (HEAD) sends precede all non-priority, but preserve arrival order within each
  class". So a priority send goes to the end of the head lane, behind the priority sends
  already waiting and ahead of every normal send, and a normal send goes to the tail.
\<close>

definition QueueMessage :: "DiscordClient \<Rightarrow> string \<Rightarrow> bool \<Rightarrow> DiscordClient" where
  "QueueMessage c j to_front =
    (if to_front
     then c\<lparr> message_queue :=
             takeWhile snd (message_queue c) @ (j, True) # dropWhile snd (message_queue c) \<rparr>
     else c\<lparr> message_queue := message_queue c @ [(j, False)] \<rparr>)"








text \<open>
  The shape the deque keeps: once past the leading priority messages, no priority
  message follows.
\<close>

definition lanes :: "(string \<times> bool) list \<Rightarrow> bool" where
  "lanes q \<longleftrightarrow> filter snd (dropWhile snd q) = []"

text \<open>
  Modelled from the spec: the body of \<^verbatim>\<open>DiscordClient::OneSecondTimer\<close> is not among the
  sources (\<^verbatim>\<open>discordclient.h\<close> declares it: "Fires every second from the underlying socket
  I/O loop, used for sending heartbeats"). The spec (4.4.2): "On every one-second tick
  after HELLO: if now - last_heartbeat_sent >= heartbeat_interval_ms then push a heartbeat
  (priority) with last_sequence; set last_heartbeat_sent. If last_heartbeat_ack <
  last_heartbeat_sent - heartbeat_interval_ms (zombie), force reconnect."
  \<open>heartbeat\<close> is the text of the heartbeat payload for a sequence number. The result is
  the shard after the tick and whether it was declared zombied, which forces the reconnect.
\<close>

definition OneSecondTimer ::
  "(64 word \<Rightarrow> string) \<Rightarrow> int \<Rightarrow> DiscordClient \<Rightarrow> DiscordClient \<times> bool" where
  "OneSecondTimer heartbeat now c =
    (let c1 = (if now - last_heartbeat c \<ge> uint (heartbeat_interval c)
               then (QueueMessage c (heartbeat (last_seq c)) True)\<lparr> last_heartbeat := now \<rparr>
               else c)
     in (c1, last_heartbeat_ack c1 < last_heartbeat c1 - uint (heartbeat_interval c1)))"





section \<open>Properties of the JSON model\<close>

text \<open>An object is walked through in the order of its keys, not of insertion.\<close>

lemma json_items_key_order:
  "json_items (JObj [(''second'', JNum 2), (''first'', JNum 1)]) = [JNum 1, JNum 2]"
  by code_simp

section \<open>Properties of the event handlers\<close>

lemma find_in_None: "find_in s i = None \<longleftrightarrow> s i = None"
  by (simp add: find_in_def split: option.splits)

lemma find_in_ex: "(\<exists>p. find_in s i = Some p) \<longleftrightarrow> (\<exists>x. s i = Some x)"
  by (auto simp add: find_in_def split: option.splits)

text \<open>
  C1. On a shard whose cluster has a \<^verbatim>\<open>message_reaction_add\<close> handler, for a dispatch whose
  \<^verbatim>\<open>d\<close> is an object, the handler is called (once, with the event record) if and only if
  the reacting user and the reacting channel are in the cache and the message id is not
  zero; in every other case nothing is raised and no call is made.
\<close>

theorem message_reaction_add_invoked_iff:
  assumes reg: "message_reaction_add (dispatch (creator client))"
    and d: "json_find j ''d'' = Some (JObj kvs)"
  shows "((\<exists>ev. message_reaction_add_handle h c client j raw = Inr [ev])
          \<longleftrightarrow> (users c (SnowflakeNotNull h (JObj kvs) ''user_id'') \<noteq> None
               \<and> channels c (SnowflakeNotNull h (JObj kvs) ''channel_id'') \<noteq> None
               \<and> SnowflakeNotNull h (JObj kvs) ''message_id'' \<noteq> 0))
       \<and> (message_reaction_add_handle h c client j raw = Inr []
          \<longleftrightarrow> \<not> (users c (SnowflakeNotNull h (JObj kvs) ''user_id'') \<noteq> None
               \<and> channels c (SnowflakeNotNull h (JObj kvs) ''channel_id'') \<noteq> None
               \<and> SnowflakeNotNull h (JObj kvs) ''message_id'' \<noteq> 0))"
proof -
  from d obtain env where j: "j = JObj env" and env: "map_of env ''d'' = Some (JObj kvs)"
    by (cases j) auto
  have at: "json_at j ''d'' = Inr (JObj kvs)"
    using j env by simp
  show ?thesis
    using reg at
    by (simp add: message_reaction_add_handle_def Let_def find_user_def find_channel_def
        find_in_None find_in_ex)
qed

text \<open>A reaction by a cached user in a cached channel reaches the handler.\<close>

theorem message_reaction_add_invoked_iff_witness:
  "message_reaction_add (dispatch (creator
      \<lparr> creator = \<lparr> dispatch = \<lparr> message_reaction_add = True, user_update = False \<rparr> \<rparr>,
        shard_id = 0, message_queue = [],
        heartbeat_interval = 0, last_heartbeat = 0, last_seq = 0, last_heartbeat_ack = 0 \<rparr>))
   \<and> json_find (JObj [(''d'', JObj [(''user_id'', JNum 5), (''channel_id'', JNum 7),
          (''message_id'', JNum 9)])]) ''d''
       = Some (JObj [(''user_id'', JNum 5), (''channel_id'', JNum 7), (''message_id'', JNum 9)])
   \<and> (\<exists>ev. message_reaction_add_handle
         \<lparr> SnowflakeNotNull = (\<lambda>d k. case json_find d k of Some (JNum n) \<Rightarrow> word_of_int n | _ \<Rightarrow> 0),
           StringNotNull = (\<lambda>d k. []), Int8NotNull = (\<lambda>d k. 0), Int32NotNull = (\<lambda>d k. 0),
           BoolNotNull = (\<lambda>d k. False) \<rparr>
         \<lparr> guilds = Map.empty, users = [5 \<mapsto> ''alice''], channels = [7 \<mapsto> ''general''],
           emojis = (Map.empty :: snowflake \<rightharpoonup> unit) \<rparr>
         \<lparr> creator = \<lparr> dispatch = \<lparr> message_reaction_add = True, user_update = False \<rparr> \<rparr>,
           shard_id = 0, message_queue = [],
        heartbeat_interval = 0, last_heartbeat = 0, last_seq = 0, last_heartbeat_ack = 0 \<rparr>
         (JObj [(''d'', JObj [(''user_id'', JNum 5), (''channel_id'', JNum 7),
            (''message_id'', JNum 9)])])
         ''raw'' = Inr [ev])"
  (is "?A \<and> ?B \<and> ?C")
proof -
  have a: ?A by simp
  have b: ?B by simp
  have ?C
    by (rule message_reaction_add_invoked_iff [OF a b, THEN conjunct1, THEN iffD2]) simp
  with a b show ?thesis by blast
qed


text \<open>
  C10. For a USER_UPDATE whose \<^verbatim>\<open>d.id\<close> is not zero and names a cached user, the cache entry
  under that id becomes \<^verbatim>\<open>fill_from_json\<close> of the old entry and nothing else in the cache
  changes, whether or not a \<^verbatim>\<open>user_update\<close> handler is set, and the handler, if set, is
  called with a pointer to that entry. A call to the handler happens only with a handler
  set, a non-zero id and a cached user. With no cached user under the id the cache is
  unchanged and no call is made.
\<close>

theorem user_update_handle_effect:
  assumes d: "json_at j ''d'' = Inr d"
  shows "(SnowflakeNotNull h d ''id'' \<noteq> 0 \<and> users c (SnowflakeNotNull h d ''id'') = Some u
            \<longrightarrow> user_update_handle h fill c client j raw
                = Inr (c\<lparr> users := (users c)(SnowflakeNotNull h d ''id'' \<mapsto> fill u d) \<rparr>,
                       if user_update (dispatch (creator client))
                       then [\<lparr> uu_raw_event = raw, uu_from_shard = shard_id client,
                               updated = Some (SnowflakeNotNull h d ''id'') \<rparr>]
                       else []))
       \<and> (\<forall>c' calls. user_update_handle h fill c client j raw = Inr (c', calls) \<and> calls \<noteq> []
            \<longrightarrow> user_update (dispatch (creator client)) \<and> SnowflakeNotNull h d ''id'' \<noteq> 0
                \<and> users c (SnowflakeNotNull h d ''id'') \<noteq> None)
       \<and> (users c (SnowflakeNotNull h d ''id'') = None
            \<longrightarrow> user_update_handle h fill c client j raw = Inr (c, []))"
  using d
  by (auto simp add: user_update_handle_def Let_def find_user_def find_in_def
      split: option.splits if_splits)

text \<open>With no handler registered the cached user is still rewritten from the event.\<close>

theorem user_update_handle_effect_witness:
  "json_at (JObj [(''d'', JObj [(''id'', JNum 5), (''username'', JStr ''bob'')])]) ''d''
     = Inr (JObj [(''id'', JNum 5), (''username'', JStr ''bob'')])
   \<and> user_update_handle
        \<lparr> SnowflakeNotNull = (\<lambda>d k. case json_find d k of Some (JNum n) \<Rightarrow> word_of_int n | _ \<Rightarrow> 0),
          StringNotNull = (\<lambda>d k. case json_find d k of Some (JStr s) \<Rightarrow> s | _ \<Rightarrow> []),
          Int8NotNull = (\<lambda>d k. 0), Int32NotNull = (\<lambda>d k. 0), BoolNotNull = (\<lambda>d k. False) \<rparr>
        (\<lambda>u d. case json_find d ''username'' of Some (JStr s) \<Rightarrow> s | _ \<Rightarrow> u)
        \<lparr> guilds = (Map.empty :: snowflake \<rightharpoonup> unit), users = [5 \<mapsto> ''alice''],
          channels = (Map.empty :: snowflake \<rightharpoonup> unit),
          emojis = (Map.empty :: snowflake \<rightharpoonup> unit) \<rparr>
        \<lparr> creator = \<lparr> dispatch = \<lparr> message_reaction_add = False, user_update = False \<rparr> \<rparr>,
          shard_id = 0, message_queue = [],
        heartbeat_interval = 0, last_heartbeat = 0, last_seq = 0, last_heartbeat_ack = 0 \<rparr>
        (JObj [(''d'', JObj [(''id'', JNum 5), (''username'', JStr ''bob'')])])
        ''raw''
      = Inr (\<lparr> guilds = Map.empty, users = [5 \<mapsto> ''bob''], channels = Map.empty,
               emojis = Map.empty \<rparr>, [])"
  (is "?A \<and> ?B")
proof -
  have a: ?A by simp
  have ?B
    using user_update_handle_effect [OF a, THEN conjunct1, rule_format,
        where u = "''alice''" and c = "\<lparr> guilds = (Map.empty :: snowflake \<rightharpoonup> unit), users = [5 \<mapsto> ''alice''],
          channels = (Map.empty :: snowflake \<rightharpoonup> unit),
          emojis = (Map.empty :: snowflake \<rightharpoonup> unit) \<rparr>"
        and h = "\<lparr> SnowflakeNotNull = (\<lambda>d k. case json_find d k of Some (JNum n) \<Rightarrow> word_of_int n | _ \<Rightarrow> 0),
          StringNotNull = (\<lambda>d k. case json_find d k of Some (JStr s) \<Rightarrow> s | _ \<Rightarrow> []),
          Int8NotNull = (\<lambda>d k. 0), Int32NotNull = (\<lambda>d k. 0), BoolNotNull = (\<lambda>d k. False) \<rparr>"
        and fill = "\<lambda>u d. case json_find d ''username'' of Some (JStr s) \<Rightarrow> s | _ \<Rightarrow> u"
        and client = "\<lparr> creator = \<lparr> dispatch = \<lparr> message_reaction_add = False, user_update = False \<rparr> \<rparr>,
          shard_id = 0, message_queue = [],
        heartbeat_interval = 0, last_heartbeat = 0, last_seq = 0, last_heartbeat_ack = 0 \<rparr>" and raw = "''raw''"]
    by simp
  with a show ?thesis by blast
qed

section \<open>Properties of the slash command builder\<close>

lemma ebind_Inr [simp]: "ebind (Inr x) f = f x"
  by (simp add: ebind_def)

lemma ebind_Inl [simp]: "ebind (Inl e) f = Inl e"
  by (simp add: ebind_def)

lemma ebind_bva:
  "ebind m f = Inl BadVariantAccess
    \<Longrightarrow> m = Inl BadVariantAccess \<or> (\<exists>x. m = Inr x \<and> f x = Inl BadVariantAccess)"
  by (cases m) auto

lemma json_set_no_bva: "json_set j k v \<noteq> Inl BadVariantAccess"
  by (cases j) auto

lemma json_push_back_no_bva: "json_push_back j v \<noteq> Inl BadVariantAccess"
  by (cases j) auto

lemma json_at_no_bva: "json_at j k \<noteq> Inl BadVariantAccess"
  by (cases j) auto

lemma build_choices_throws:
  "\<exists>ch \<in> set chs. holds_bool (coc_value ch) \<or> holds_snowflake (coc_value ch)
    \<Longrightarrow> \<exists>e. build_choices c chs = Inl e"
proof (induction chs arbitrary: c)
  case Nil
  then show ?case by simp
next
  case (Cons ch chs)
  show ?case
  proof (cases "top_choice_value (coc_value ch)")
    case (Inl e)
    then show ?thesis by simp
  next
    case (Inr v)
    then have ok: "\<not> (holds_bool (coc_value ch) \<or> holds_snowflake (coc_value ch))"
      by (cases "coc_value ch") auto
    with Cons.prems have rest: "\<exists>ch \<in> set chs. holds_bool (coc_value ch) \<or> holds_snowflake (coc_value ch)"
      by auto
    show ?thesis
    proof (cases "json_push_back c (JObj [(''name'', JStr (coc_name ch)), (''value'', v)])")
      case (Inl e)
      with Inr show ?thesis by simp
    next
      case (Inr c')
      with \<open>top_choice_value (coc_value ch) = Inr v\<close> Cons.IH [OF rest, of c']
      show ?thesis by simp
    qed
  qed
qed

lemma build_choices_no_bva:
  "\<forall>ch \<in> set chs. holds_string (coc_value ch) \<or> holds_uint32 (coc_value ch)
    \<Longrightarrow> build_choices c chs \<noteq> Inl BadVariantAccess"
proof (induction chs arbitrary: c)
  case Nil
  then show ?case by simp
next
  case (Cons ch chs)
  then have "top_choice_value (coc_value ch) \<noteq> Inl BadVariantAccess"
    by (cases "coc_value ch") auto
  with Cons show ?case
    by (auto dest!: ebind_bva simp: json_set_no_bva json_push_back_no_bva)
qed

lemma fill_v_no_bva: "fill_v v chs \<noteq> Inl BadVariantAccess"
  by (induction chs arbitrary: v) (auto dest!: ebind_bva simp: json_set_no_bva)

lemma subcommand_object_no_bva: "subcommand_object opt sub \<noteq> Inl BadVariantAccess"
  unfolding subcommand_object_def
  by (auto dest!: ebind_bva simp: json_set_no_bva json_push_back_no_bva fill_v_no_bva
      split: if_splits)

lemma push_back_self_no_bva: "push_back_self n k \<noteq> Inl BadVariantAccess"
  unfolding push_back_self_def
  by (auto dest!: ebind_bva simp: json_set_no_bva json_at_no_bva split: json.splits)

lemma nested_loop_no_bva: "nested_loop opt n subs \<noteq> Inl BadVariantAccess"
  by (induction subs arbitrary: n)
    (auto dest!: ebind_bva simp: subcommand_object_no_bva push_back_self_no_bva)

lemma option_json_throws:
  assumes "\<exists>ch \<in> set (co_choices opt). holds_bool (coc_value ch) \<or> holds_snowflake (coc_value ch)"
  shows "\<exists>e. option_json opt = Inl e"
proof -
  from assms have ne: "co_choices opt \<noteq> []" by auto
  from build_choices_throws [OF assms] obtain e where "build_choices JNull (co_choices opt) = Inl e"
    by blast
  with ne show ?thesis
    by (simp add: option_json_def)
qed

lemma option_json_no_bva:
  assumes "\<forall>ch \<in> set (co_choices opt). holds_string (coc_value ch) \<or> holds_uint32 (coc_value ch)"
  shows "option_json opt \<noteq> Inl BadVariantAccess"
  unfolding option_json_def
  by (auto dest!: ebind_bva simp: json_set_no_bva nested_loop_no_bva
      build_choices_no_bva [OF assms] split: if_splits)

lemma build_options_throws:
  "\<exists>opt \<in> set opts. \<exists>ch \<in> set (co_choices opt). holds_bool (coc_value ch) \<or> holds_snowflake (coc_value ch)
    \<Longrightarrow> \<exists>e. build_options arr opts = Inl e"
proof (induction opts arbitrary: arr)
  case Nil
  then show ?case by simp
next
  case (Cons opt opts)
  show ?case
  proof (cases "option_json opt")
    case (Inl e)
    then show ?thesis by simp
  next
    case (Inr n)
    with option_json_throws [of opt] have "\<not> (\<exists>ch \<in> set (co_choices opt). holds_bool (coc_value ch) \<or> holds_snowflake (coc_value ch))"
      by auto
    with Cons.prems have rest: "\<exists>opt \<in> set opts. \<exists>ch \<in> set (co_choices opt). holds_bool (coc_value ch) \<or> holds_snowflake (coc_value ch)"
      by auto
    show ?thesis
    proof (cases "json_push_back arr n")
      case (Inl e)
      with Inr show ?thesis by simp
    next
      case (Inr arr')
      with \<open>option_json opt = Inr n\<close> Cons.IH [OF rest, of arr'] show ?thesis by simp
    qed
  qed
qed

lemma build_options_no_bva:
  "\<forall>opt \<in> set opts. \<forall>ch \<in> set (co_choices opt). holds_string (coc_value ch) \<or> holds_uint32 (coc_value ch)
    \<Longrightarrow> build_options arr opts \<noteq> Inl BadVariantAccess"
  by (induction opts arbitrary: arr)
    (auto dest!: ebind_bva simp: json_push_back_no_bva option_json_no_bva)

text \<open>
  C8. \<^verbatim>\<open>slashcommand::build_json\<close> returns only when every choice of every top-level
  option holds a string or a \<^verbatim>\<open>uint32_t\<close>: a command with a top-level choice that holds a
  \<^verbatim>\<open>bool\<close> or a snowflake always ends in an exception, there is such a command on which
  the exception is \<^verbatim>\<open>std::bad_variant_access\<close>, and when all top-level choices hold a
  string or a \<^verbatim>\<open>uint32_t\<close> that exception is never raised.
\<close>

theorem slashcommand_build_json_bad_variant_access:
  "((\<exists>opt \<in> set (sc_options cmd). \<exists>ch \<in> set (co_choices opt).
        holds_bool (coc_value ch) \<or> holds_snowflake (coc_value ch))
      \<longrightarrow> (\<exists>e. slashcommand_build_json with_id cmd = Inl e))
   \<and> slashcommand_build_json with_id
        \<lparr> sc_id = 1, sc_application_id = 2, sc_name = ''mute'', sc_description = ''mute someone'',
          sc_options = [CommandOption co_boolean ''silent'' ''no notice'' False
            [\<lparr> coc_name = ''yes'', coc_value = CVBool True \<rparr>] []] \<rparr>
       = Inl BadVariantAccess
   \<and> ((\<forall>opt \<in> set (sc_options cmd). \<forall>ch \<in> set (co_choices opt).
        holds_string (coc_value ch) \<or> holds_uint32 (coc_value ch))
      \<longrightarrow> slashcommand_build_json with_id cmd \<noteq> Inl BadVariantAccess)"
proof (intro conjI impI)
  assume bad: "\<exists>opt \<in> set (sc_options cmd). \<exists>ch \<in> set (co_choices opt).
        holds_bool (coc_value ch) \<or> holds_snowflake (coc_value ch)"
  then have ne: "sc_options cmd \<noteq> []" by auto
  from build_options_throws [OF bad] obtain e where "build_options JNull (sc_options cmd) = Inl e"
    by blast
  with ne show "\<exists>e. slashcommand_build_json with_id cmd = Inl e"
    by (cases with_id) (simp_all add: slashcommand_build_json_def)
next
  show "slashcommand_build_json with_id
        \<lparr> sc_id = 1, sc_application_id = 2, sc_name = ''mute'', sc_description = ''mute someone'',
          sc_options = [CommandOption co_boolean ''silent'' ''no notice'' False
            [\<lparr> coc_name = ''yes'', coc_value = CVBool True \<rparr>] []] \<rparr>
       = Inl BadVariantAccess"
    by (cases with_id) (simp_all add: slashcommand_build_json_def option_json_def)
next
  assume ok: "\<forall>opt \<in> set (sc_options cmd). \<forall>ch \<in> set (co_choices opt).
        holds_string (coc_value ch) \<or> holds_uint32 (coc_value ch)"
  show "slashcommand_build_json with_id cmd \<noteq> Inl BadVariantAccess"
    unfolding slashcommand_build_json_def
    by (auto dest!: ebind_bva simp: json_set_no_bva build_options_no_bva [OF ok]
        split: if_splits)
qed


text \<open>A snowflake choice makes the builder throw; string and integer choices do not.\<close>

theorem slashcommand_build_json_bad_variant_access_witness:
  "(\<exists>opt \<in> set [CommandOption co_user ''who'' ''target'' True
        [\<lparr> coc_name = ''owner'', coc_value = CVSnowflake 42 \<rparr>] []].
      \<exists>ch \<in> set (co_choices opt). holds_bool (coc_value ch) \<or> holds_snowflake (coc_value ch))
   \<and> (\<exists>e. slashcommand_build_json True
        \<lparr> sc_id = 1, sc_application_id = 2, sc_name = ''kick'', sc_description = ''kick someone'',
          sc_options = [CommandOption co_user ''who'' ''target'' True
            [\<lparr> coc_name = ''owner'', coc_value = CVSnowflake 42 \<rparr>] []] \<rparr> = Inl e)
   \<and> slashcommand_build_json True
        \<lparr> sc_id = 1, sc_application_id = 2, sc_name = ''roll'', sc_description = ''roll a die'',
          sc_options = [CommandOption co_integer ''sides'' ''how many'' True
            [\<lparr> coc_name = ''six'', coc_value = CVUInt32 6 \<rparr>,
             \<lparr> coc_name = ''many'', coc_value = CVString ''d20'' \<rparr>] []] \<rparr>
       \<noteq> Inl BadVariantAccess"
  (is "?A \<and> ?B \<and> ?C")
proof -
  have a: ?A by simp
  have ?B
    using a
    by (intro slashcommand_build_json_bad_variant_access [THEN conjunct1, rule_format]) simp
  moreover have ?C
    by (intro slashcommand_build_json_bad_variant_access
        [THEN conjunct2, THEN conjunct2, rule_format]) auto
  ultimately show ?thesis using a by blast
qed

text \<open>
  C2. A command whose only option \<^verbatim>\<open>grp\<close> has one sub-option \<^verbatim>\<open>sub\<close>: the nested
  \<^verbatim>\<open>options\<close> array receives a copy of the enclosing object of \<^verbatim>\<open>grp\<close>, and nothing of
  \<^verbatim>\<open>sub\<close> (its name \<^verbatim>\<open>sub\<close>, its description \<^verbatim>\<open>inner\<close>, its type 1) reaches the
  document.
\<close>

theorem slashcommand_build_json_nested_pushes_parent:
  "slashcommand_build_json False
     \<lparr> sc_id = 1, sc_application_id = 2, sc_name = ''cmd'', sc_description = ''a command'',
       sc_options = [CommandOption co_sub_command_group ''grp'' ''a group'' False []
         [CommandOption co_sub_command ''sub'' ''inner'' False [] []]] \<rparr>
   = Inr (JObj
       [(''name'', JStr ''cmd''), (''description'', JStr ''a command''),
        (''options'', JArr
          [JObj
            [(''name'', JStr ''grp''), (''description'', JStr ''a group''),
             (''type'', JNum 2), (''required'', JBool False),
             (''options'', JArr
               [JObj
                 [(''name'', JStr ''grp''), (''description'', JStr ''a group''),
                  (''type'', JNum 2), (''required'', JBool False),
                  (''options'', JArr [])]])]])])"
  by (simp add: slashcommand_build_json_def option_json_def subcommand_object_def
      push_back_self_def co_sub_command_group_def)

section \<open>Properties of the interaction response\<close>

lemma json_erase_absent: "json_find mj k = None \<Longrightarrow> json_erase mj k = mj"
  by (cases mj) (simp_all add: map_of_eq_None_iff)

lemma json_find_erase_same: "json_find (json_erase mj k) k = None"
  by (cases mj) (simp_all add: delete_conv')

lemma json_find_erase_other: "k' \<noteq> k \<Longrightarrow> json_find (json_erase mj k) k' = json_find mj k'"
  by (cases mj) simp_all

text \<open>
  C9. When the wrapped message's JSON text parses to the document \<open>mj\<close>,
  \<^verbatim>\<open>interaction_response::build_json\<close> builds an object with exactly two keys, \<^verbatim>\<open>type\<close>
  holding the response type and \<^verbatim>\<open>data\<close> holding \<open>mj\<close> without its \<^verbatim>\<open>channel_id\<close>
  entry: every other key reads as in \<open>mj\<close>, the remaining entries keep their order, and
  a document that is not an object is passed on as it is.
\<close>

theorem interaction_response_build_json_frame:
  assumes "message_json (msg r) = Inr mj"
  shows "\<exists>data. interaction_response_build_json message_json r
             = Inr (JObj [(''type'', JNum (ir_type r)), (''data'', data)])
           \<and> json_find data ''channel_id'' = None
           \<and> (\<forall>k. k \<noteq> ''channel_id'' \<longrightarrow> json_find data k = json_find mj k)
           \<and> (\<forall>kvs. mj = JObj kvs
                \<longrightarrow> data = JObj (filter (\<lambda>kv. fst kv \<noteq> ''channel_id'') kvs))
           \<and> ((\<forall>kvs. mj \<noteq> JObj kvs) \<longrightarrow> data = mj)"
proof (intro exI conjI)
  show "interaction_response_build_json message_json r
      = Inr (JObj [(''type'', JNum (ir_type r)), (''data'', json_erase mj ''channel_id'')])"
    using assms
    by (simp add: interaction_response_build_json_def json_erase_absent split: option.splits)
  show "json_find (json_erase mj ''channel_id'') ''channel_id'' = None"
    by (rule json_find_erase_same)
  show "\<forall>k. k \<noteq> ''channel_id'' \<longrightarrow> json_find (json_erase mj ''channel_id'') k = json_find mj k"
    by (simp add: json_find_erase_other)
  show "\<forall>kvs. mj = JObj kvs
      \<longrightarrow> json_erase mj ''channel_id'' = JObj (filter (\<lambda>kv. fst kv \<noteq> ''channel_id'') kvs)"
    by (auto simp add: AList.delete_eq intro: filter_cong)
  show "(\<forall>kvs. mj \<noteq> JObj kvs) \<longrightarrow> json_erase mj ''channel_id'' = mj"
    by (cases mj) simp_all
qed

text \<open>A message with a channel id loses that key and keeps its content and flags.\<close>

theorem interaction_response_build_json_frame_witness:
  "(\<lambda>m. Inr (JObj [(''content'', JStr m), (''channel_id'', JStr ''77''), (''tts'', JBool False)]))
      ''hello'' = (Inr (JObj [(''content'', JStr ''hello''), (''channel_id'', JStr ''77''),
         (''tts'', JBool False)]) :: error + json)
   \<and> interaction_response_build_json
        (\<lambda>m. Inr (JObj [(''content'', JStr m), (''channel_id'', JStr ''77''), (''tts'', JBool False)]))
        \<lparr> ir_type = ir_channel_message_with_source, msg = ''hello'' \<rparr>
      = Inr (JObj [(''type'', JNum 4),
                   (''data'', JObj [(''content'', JStr ''hello''), (''tts'', JBool False)])])"
  (is "?A \<and> ?B")
proof -
  have a: "(\<lambda>m. Inr (JObj [(''content'', JStr m), (''channel_id'', JStr ''77''), (''tts'', JBool False)]))
      (msg \<lparr> ir_type = ir_channel_message_with_source, msg = ''hello'' \<rparr>)
      = (Inr (JObj [(''content'', JStr ''hello''), (''channel_id'', JStr ''77''),
         (''tts'', JBool False)]) :: error + json)"
    by simp
  from interaction_response_build_json_frame
    [where message_json = "\<lambda>m. Inr (JObj [(''content'', JStr m), (''channel_id'', JStr ''77''),
        (''tts'', JBool False)])"
      and r = "\<lparr> ir_type = ir_channel_message_with_source, msg = ''hello'' \<rparr>"
      and mj = "JObj [(''content'', JStr ''hello''), (''channel_id'', JStr ''77''),
        (''tts'', JBool False)]", OF a]
  have ?B by (auto simp add: ir_channel_message_with_source_def)
  then show ?thesis by simp
qed

text \<open>
  C6, as stated: the deprecated response types are rejected for sending. They are not: a
  response of type \<^verbatim>\<open>ir_acknowledge\<close> is built like any other, with \<^verbatim>\<open>"type": 2\<close>.
\<close>

theorem deprecated_response_type_build_json_counterexample:
  "interaction_response_build_json (\<lambda>m. Inr (JObj [(''content'', JStr m)]))
     \<lparr> ir_type = ir_acknowledge, msg = ''ok'' \<rparr>
   = Inr (JObj [(''type'', JNum 2), (''data'', JObj [(''content'', JStr ''ok'')])])"
  by (simp add: interaction_response_build_json_def ir_acknowledge_def)

text \<open>
  C6, amended. For the deprecated types \<^verbatim>\<open>ir_acknowledge\<close> (2) and
  \<^verbatim>\<open>ir_channel_message\<close> (3): \<^verbatim>\<open>fill_from_json\<close> stores the type it reads, and
  \<^verbatim>\<open>build_json\<close> emits the stored type under \<^verbatim>\<open>type\<close> without any check.
\<close>

theorem deprecated_response_types_parsed_and_sent:
  assumes t: "t = ir_acknowledge \<or> t = ir_channel_message"
  shows "(uint (Int8NotNull h j ''type'') = t
            \<longrightarrow> ir_type (interaction_response_fill_from_json h message_fill r j) = t)
       \<and> (ir_type r = t \<and> message_json (msg r) = Inr mj
            \<longrightarrow> (\<exists>data. interaction_response_build_json message_json r
                   = Inr (JObj [(''type'', JNum t), (''data'', data)])))"
  by (auto simp add: interaction_response_fill_from_json_def Let_def
      interaction_response_build_json_def split: option.splits)

text \<open>Type 3 is stored when parsed and written out when built.\<close>

theorem deprecated_response_types_parsed_and_sent_witness:
  "(ir_channel_message = ir_acknowledge \<or> ir_channel_message = ir_channel_message)
   \<and> ir_type (interaction_response_fill_from_json
        \<lparr> SnowflakeNotNull = (\<lambda>d k. 0), StringNotNull = (\<lambda>d k. []),
          Int8NotNull = (\<lambda>d k. case json_find d k of Some (JNum n) \<Rightarrow> word_of_int n | _ \<Rightarrow> 0),
          Int32NotNull = (\<lambda>d k. 0), BoolNotNull = (\<lambda>d k. False) \<rparr>
        (\<lambda>m d. m) \<lparr> ir_type = ir_pong, msg = ''old'' \<rparr> (JObj [(''type'', JNum 3)]))
      = ir_channel_message
   \<and> (\<exists>data. interaction_response_build_json (\<lambda>m. Inr (JObj [(''content'', JStr m)]))
        \<lparr> ir_type = ir_channel_message, msg = ''hi'' \<rparr>
      = Inr (JObj [(''type'', JNum ir_channel_message), (''data'', data)]))"
  (is "?A \<and> ?B \<and> ?C")
proof -
  have a: ?A by simp
  have ?B
    by (rule deprecated_response_types_parsed_and_sent [OF a, THEN conjunct1, rule_format])
      (simp add: ir_channel_message_def)
  moreover have ?C
    by (rule deprecated_response_types_parsed_and_sent [OF a, THEN conjunct2, rule_format,
          where mj = "JObj [(''content'', JStr ''hi'')]"])
      simp
  ultimately show ?thesis using a by blast
qed

section \<open>Properties of the interaction decoder\<close>

text \<open>
  C7, as stated: the payload holds a \<^verbatim>\<open>command_interaction\<close> exactly when the parsed type
  is \<^verbatim>\<open>it_application_command\<close>. A freshly constructed interaction filled from a ping
  (type 1) still holds the \<^verbatim>\<open>command_interaction\<close> it was constructed with.
\<close>

theorem interaction_fill_from_json_ping_counterexample:
  "\<exists>i'. interaction_fill_from_json
      \<lparr> SnowflakeNotNull = (\<lambda>d k. 0), StringNotNull = (\<lambda>d k. []),
        Int8NotNull = (\<lambda>d k. case json_find d k of Some (JNum n) \<Rightarrow> word_of_int n | _ \<Rightarrow> 0),
        Int32NotNull = (\<lambda>d k. 0), BoolNotNull = (\<lambda>d k. False) \<rparr>
      (\<lambda>m. ()) (\<lambda>u. ()) 0 0
      \<lparr> i_id = 0, i_application_id = 0, i_type = 0, i_data = default_interaction_data,
        i_guild_id = 0, i_channel_id = 0, i_member = (), i_usr = (), i_token = [],
        i_version = 0 \<rparr>
      (JObj [(''type'', JNum 1), (''version'', JNum 1)]) = Inr i'
    \<and> i_type i' = it_ping
    \<and> holds_command_interaction (i_data i')
    \<and> i_type i' \<noteq> it_application_command"
  by (simp add: interaction_fill_from_json_def Let_def default_interaction_data_def it_ping_def
      it_application_command_def it_component_button_def)

text \<open>
  C7, amended. When \<^verbatim>\<open>interaction::fill_from_json\<close> returns, the stored type is the one
  read from the JSON; for type 2 the payload is the \<^verbatim>\<open>command_interaction\<close> built from the
  JSON, for type 3 it is the \<^verbatim>\<open>button_interaction\<close> built from the JSON, and for every
  other type (the ping's 1 among them) the payload is what it was before the call. So an
  interaction that held a \<^verbatim>\<open>command_interaction\<close> before the call, as a fresh one does,
  holds a \<^verbatim>\<open>button_interaction\<close> afterwards exactly when the type is 3.
\<close>

theorem interaction_fill_from_json_data:
  assumes "interaction_fill_from_json h member_from user_from uninit_id uninit_ct i j = Inr i'"
  shows "i_type i' = Int8NotNull h j ''type''
       \<and> (i_type i' = it_application_command
            \<longrightarrow> i_data i' = CommandInteraction (command_interaction_from_json h uninit_id j))
       \<and> (i_type i' = it_component_button
            \<longrightarrow> i_data i' = ButtonInteraction (button_interaction_from_json h uninit_ct j))
       \<and> (i_type i' \<noteq> it_application_command \<and> i_type i' \<noteq> it_component_button
            \<longrightarrow> i_data i' = i_data i)
       \<and> (holds_command_interaction (i_data i)
            \<longrightarrow> (holds_button_interaction (i_data i') \<longleftrightarrow> i_type i' = it_component_button))"
  using assms
  by (auto simp add: interaction_fill_from_json_def Let_def ebind_def it_application_command_def
      it_component_button_def split: option.splits sum.splits if_splits)


text \<open>A button click is decoded into a \<^verbatim>\<open>button_interaction\<close>.\<close>

theorem interaction_fill_from_json_data_witness:
  "interaction_fill_from_json
      \<lparr> SnowflakeNotNull = (\<lambda>d k. 0),
        StringNotNull = (\<lambda>d k. case json_find d k of Some (JStr s) \<Rightarrow> s | _ \<Rightarrow> []),
        Int8NotNull = (\<lambda>d k. case json_find d k of Some (JNum n) \<Rightarrow> word_of_int n | _ \<Rightarrow> 0),
        Int32NotNull = (\<lambda>d k. 0), BoolNotNull = (\<lambda>d k. False) \<rparr>
      (\<lambda>m. ()) (\<lambda>u. ()) 0 0
      \<lparr> i_id = 0, i_application_id = 0, i_type = 0, i_data = default_interaction_data,
        i_guild_id = 0, i_channel_id = 0, i_member = (), i_usr = (), i_token = [],
        i_version = 0 \<rparr>
      (JObj [(''type'', JNum 3), (''version'', JNum 1),
             (''data'', JObj [(''component_type'', JNum 2), (''custom_id'', JStr ''ok'')])])
    = Inr \<lparr> i_id = 0, i_application_id = 0, i_type = 3,
            i_data = ButtonInteraction \<lparr> component_type = 2, custom_id = ''ok'' \<rparr>,
            i_guild_id = 0, i_channel_id = 0, i_member = (), i_usr = (), i_token = [],
            i_version = 1 \<rparr>
   \<and> i_data \<lparr> i_id = 0, i_application_id = 0, i_type = 3,
            i_data = ButtonInteraction \<lparr> component_type = 2, custom_id = ''ok'' \<rparr>,
            i_guild_id = 0, i_channel_id = 0, i_member = (), i_usr = (), i_token = [],
            i_version = (1 :: 8 word) \<rparr>
      = ButtonInteraction (button_interaction_from_json
          \<lparr> SnowflakeNotNull = (\<lambda>d k. 0),
            StringNotNull = (\<lambda>d k. case json_find d k of Some (JStr s) \<Rightarrow> s | _ \<Rightarrow> []),
            Int8NotNull = (\<lambda>d k. case json_find d k of Some (JNum n) \<Rightarrow> word_of_int n | _ \<Rightarrow> 0),
            Int32NotNull = (\<lambda>d k. 0), BoolNotNull = (\<lambda>d k. False) \<rparr> 0
          (JObj [(''type'', JNum 3), (''version'', JNum 1),
             (''data'', JObj [(''component_type'', JNum 2), (''custom_id'', JStr ''ok'')])]))"
  (is "?A \<and> ?B")
proof -
  have a: ?A
    by (simp add: interaction_fill_from_json_def Let_def default_interaction_data_def
        it_application_command_def it_component_button_def button_interaction_from_json_def)
  have ?B
    by (rule interaction_fill_from_json_data [OF a, THEN conjunct2, THEN conjunct2,
          THEN conjunct1, rule_format])
      (simp add: it_component_button_def)
  with a show ?thesis by blast
qed

section \<open>Properties of the shard\<close>

lemma lanes_Nil: "lanes []"
  by (simp add: lanes_def)




















text \<open>
  C3. On a tick, when the last heartbeat ACK is older than the last heartbeat sent by more
  than the heartbeat interval, the shard is declared zombied (and so reconnects), whether
  or not the tick also sends a new heartbeat.
\<close>

theorem heartbeat_ack_overdue_zombied:
  assumes "last_heartbeat_ack c < last_heartbeat c - uint (heartbeat_interval c)"
  shows "snd (OneSecondTimer heartbeat now c)"
proof -
  define n where "n = uint (heartbeat_interval c)"
  have n: "0 \<le> n" by (simp add: n_def)
  from assms have late: "last_heartbeat_ack c < last_heartbeat c - n" by (simp add: n_def)
  have "last_heartbeat_ack c < now - n" if "n \<le> now - last_heartbeat c"
    using that n late by arith
  with late show ?thesis
    by (auto simp add: OneSecondTimer_def Let_def QueueMessage_def n_def)
qed

text \<open>
  Heartbeats every 1000 ms up to time 3000 and no ACK since time 0: the next tick declares
  the shard zombied.
\<close>

theorem heartbeat_ack_overdue_zombied_witness:
  "last_heartbeat_ack
      \<lparr> creator = \<lparr> dispatch = \<lparr> message_reaction_add = False, user_update = False \<rparr> \<rparr>,
        shard_id = 0, message_queue = [], heartbeat_interval = 1000, last_heartbeat = 3000,
        last_seq = 7, last_heartbeat_ack = 0 \<rparr>
     < last_heartbeat
      \<lparr> creator = \<lparr> dispatch = \<lparr> message_reaction_add = False, user_update = False \<rparr> \<rparr>,
        shard_id = 0, message_queue = [], heartbeat_interval = 1000, last_heartbeat = 3000,
        last_seq = 7, last_heartbeat_ack = 0 \<rparr>
       - uint (heartbeat_interval
      \<lparr> creator = \<lparr> dispatch = \<lparr> message_reaction_add = False, user_update = False \<rparr> \<rparr>,
        shard_id = 0, message_queue = [], heartbeat_interval = 1000, last_heartbeat = 3000,
        last_seq = 7, last_heartbeat_ack = 0 \<rparr>)
   \<and> snd (OneSecondTimer (\<lambda>s. ''heartbeat'') 3500
      \<lparr> creator = \<lparr> dispatch = \<lparr> message_reaction_add = False, user_update = False \<rparr> \<rparr>,
        shard_id = 0, message_queue = [], heartbeat_interval = 1000, last_heartbeat = 3000,
        last_seq = 7, last_heartbeat_ack = 0 \<rparr>)"
  (is "?A \<and> ?B")
proof -
  have a: ?A by simp
  from heartbeat_ack_overdue_zombied [OF a] have ?B .
  with a show ?thesis by blast
qed


end
